theory Spec2Isabelle
  imports Main "HOL-Library.AList" "HOL-Library.Word"
begin

unbundle bit_operations_syntax

text \<open>
  A model of the backend proxy between a CMS plugin and the Lokalise API: the middleware
  that resolves the credential and the project id of a request, the client's HTTP request
  with its error shape, the assembly of a project with its languages, the aggregation of
  translations by locale, and the encoding of an upload payload.

  Asynchronous functions are modelled by what their promise settles to (\<open>Inl\<close> a
  rejection, \<open>Inr\<close> the value) together with the list of upstream calls they have made.
  The upstream is a function from a call of \<open>fetch\<close> to its outcome. Data from the
  upstream has the shape that types.ts declares for it, with the alternatives that the
  client itself tests for (a key name that is a string or an object, a field that is
  missing); logging is left out.
\<close>

section \<open>Request-context resolution (middleware/auth.ts)\<close>

text \<open>
  Header values, route parameters, body fields, query fields and environment variables
  are JavaScript strings that may be missing: \<open>string option\<close>, with \<open>None\<close> for
  \<open>undefined\<close> and \<open>null\<close>. A value is truthy when it is present and not the empty
  string, and \<open>a || b\<close> yields \<open>a\<close> when \<open>a\<close> is truthy and \<open>b\<close> otherwise.
\<close>

definition truthy :: "string option \<Rightarrow> bool" where
  "truthy v = (case v of None \<Rightarrow> False | Some s \<Rightarrow> s \<noteq> [])"

definition js_or :: "string option \<Rightarrow> string option \<Rightarrow> string option" where
  "js_or a b = (if truthy a then a else b)"

definition startsWith :: "string \<Rightarrow> string \<Rightarrow> bool" where
  "startsWith s p = (take (length p) s = p)"

text \<open>
  The parts of an Express request that the middleware reads or writes. \<open>lokaliseClient\<close>
  holds the token the attached client was constructed with. The body is the object that
  the JSON body parser of server.ts always provides.
\<close>

record express_request =
  header_authorization :: "string option"
  header_x_api_token :: "string option"
  header_lokalise_api_token :: "string option"
  params_projectId :: "string option"
  body_projectId :: "string option"
  body_targetLocales :: "string list option"
  query_projectId :: "string option"
  query_projektId :: "string option"
  lokaliseClient :: "string option"
  projektId :: "string option"

record process_env =
  LOKALISE_API_TOKEN :: "string option"
  LOKALISE_PROJECT_ID :: "string option"

text \<open>
  An error reply sent with \<open>res.status(n).json(...)\<close>; the timestamp field is a wall-clock
  reading and is left out. \<open>success\<close> is \<open>None\<close> where the reply has no such field.
\<close>

record error_response =
  http_status :: nat
  success :: "bool option"
  message :: string
  details :: "string option"
  expectedFormats :: "string list option"

definition missing_token_response :: error_response where
  "missing_token_response =
     \<lparr> http_status = 401, success = Some False,
       message = ''Missing Lokalise API token. Provide via Authorization header, X-Api-Token header, or Lokalise-Api-Token header.'',
       details = Some ''Builder.io plugin should send: Authorization: Bearer {your-lokalise-token}'',
       expectedFormats = None \<rparr>"

definition missing_project_response :: error_response where
  "missing_project_response =
     \<lparr> http_status = 400, success = Some False,
       message = ''Project ID is required. Provide via URL parameter, request body, or query parameter.'',
       details = Some ''Frontend plugin should call: /api/projects/{projectId} or include projectId in request body'',
       expectedFormats = Some [''URL: /api/projects/{projectId}'',
                               ''Body: { \"projectId\": \"your-project-id\" }'',
                               ''Query: ?projektId=your-project-id''] \<rparr>"

text \<open>
  \<open>authHeader && authHeader.startsWith('Bearer ') ? authHeader.slice(7) : null\<close>
\<close>

definition bearer_credential :: "string option \<Rightarrow> string option" where
  "bearer_credential authHeader =
     (case authHeader of
        None \<Rightarrow> None
      | Some h \<Rightarrow> if h \<noteq> [] \<and> startsWith h ''Bearer '' then Some (drop 7 h) else None)"

text \<open>
  A middleware either sends a reply and stops the chain (\<open>Inl\<close>) or calls \<open>next()\<close> with
  the request as it has changed it (\<open>Inr\<close>).

  \<open>validateLokaliseToken\<close> of src/middleware/auth.ts:
\<close>

definition validateLokaliseToken ::
  "process_env \<Rightarrow> express_request \<Rightarrow> error_response + express_request" where
  "validateLokaliseToken env req =
     (let authHeader = header_authorization req;
          apiToken = js_or (js_or (js_or (bearer_credential authHeader)
                                         (header_x_api_token req))
                                  (header_lokalise_api_token req))
                           (LOKALISE_API_TOKEN env)
      in if \<not> truthy apiToken then Inl missing_token_response
         else
           let projectId = js_or (js_or (js_or (params_projectId req) (body_projectId req))
                                        (query_projectId req))
                                 (LOKALISE_PROJECT_ID env)
           in Inr (req\<lparr> lokaliseClient := apiToken,
                         projektId := (if truthy projectId then projectId else projektId req) \<rparr>))"

text \<open>
  The second copy of the middleware in the repository (unnamed/part\_004) chains the same
  four sources in another order: the two token headers come before the bearer header.
\<close>

definition validateLokaliseToken_part_004 ::
  "process_env \<Rightarrow> express_request \<Rightarrow> error_response + express_request" where
  "validateLokaliseToken_part_004 env req =
     (let authHeader = header_authorization req;
          apiToken = js_or (js_or (js_or (header_x_api_token req)
                                         (header_lokalise_api_token req))
                                  (bearer_credential authHeader))
                           (LOKALISE_API_TOKEN env)
      in if \<not> truthy apiToken then Inl missing_token_response
         else
           let projectId = js_or (js_or (js_or (params_projectId req) (body_projectId req))
                                        (query_projectId req))
                                 (LOKALISE_PROJECT_ID env)
           in Inr (req\<lparr> lokaliseClient := apiToken,
                         projektId := (if truthy projectId then projectId else projektId req) \<rparr>))"

text \<open>\<open>requireProjectId\<close>, the same in both copies of the file:\<close>

definition requireProjectId ::
  "process_env \<Rightarrow> express_request \<Rightarrow> error_response + express_request" where
  "requireProjectId env req =
     (let projectId = js_or (js_or (js_or (js_or (params_projectId req) (body_projectId req))
                                          (query_projektId req))
                                   (projektId req))
                            (LOKALISE_PROJECT_ID env)
      in if \<not> truthy projectId then Inl missing_project_response
         else Inr (req\<lparr> projektId := projectId \<rparr>))"

text \<open>
  \<open>validateGetTranslations\<close> of the validation middleware (unnamed/part\_005). The
  \<open>targetLocales\<close> body field is \<open>None\<close> when it is missing or not an array.
\<close>

definition validateGetTranslations :: "express_request \<Rightarrow> error_response + express_request" where
  "validateGetTranslations req =
     (let targetLocales = body_targetLocales req;
          projectId = js_or (js_or (params_projectId req) (body_projectId req)) (query_projectId req)
      in if \<not> truthy projectId then
           Inl \<lparr> http_status = 400, success = None, message = ''Project ID is required'',
                 details = None, expectedFormats = None \<rparr>
         else if (case targetLocales of None \<Rightarrow> True | Some ls \<Rightarrow> length ls = 0) then
           Inl \<lparr> http_status = 400, success = None,
                 message = ''Target locales array is required and must contain at least one locale'',
                 details = None, expectedFormats = None \<rparr>
         else Inr req)"

section \<open>The upstream client (lokalise-client.ts)\<close>

subsection \<open>The HTTP request\<close>

text \<open>
  A rejected promise carries a JavaScript error; \<open>Error\<close> is the one the client constructs
  itself, \<open>TypeError\<close> and \<open>SyntaxError\<close> come from \<open>fetch\<close> and \<open>response.json()\<close>.
\<close>

datatype js_error = Error string | TypeError string | SyntaxError string

text \<open>
  The error body as the client reads it, a JSON object: the \<open>message\<close> field of its
  \<open>error\<close> object and its own \<open>message\<close> field, each a string or missing. (A body
  that is JSON but no object, a string or an array, has neither field and reads like an
  object without them; the body \<open>null\<close>, on which the property read itself would raise,
  is not part of the model.)
\<close>

datatype error_object = ErrorObject (error_message: "string option")

datatype error_data = ErrorData (error_field: "error_object option") (message_field: "string option")

text \<open>
  What one call of \<open>fetch\<close> settles to: a rejection (no response), a response with
  \<open>response.ok\<close> false (status, status text, and the body parsed as JSON, \<open>None\<close> when it
  does not parse), or a response with \<open>response.ok\<close> true (what \<open>response.json()\<close>
  settles to). \<open>'p\<close> is the type of the payload of the endpoint called.
\<close>

datatype 'p fetch_outcome =
    FetchRejected js_error
  | NotOk nat string "error_data option"
  | Ok "js_error + 'p"

record request_config =
  http_method :: string
  http_body :: string

record fetch_call =
  call_url :: string
  call_api_token :: string
  call_config :: "request_config option"

definition baseUrl :: string where
  "baseUrl = ''https://api.lokalise.com/api2''"

text \<open>The decimal rendering of a number in a template literal.\<close>

function string_of_nat :: "nat \<Rightarrow> string" where
  "string_of_nat n =
     (if n < 10 then [''0123456789'' ! n]
      else string_of_nat (n div 10) @ [''0123456789'' ! (n mod 10)])"
  by pat_completeness auto
termination
  by (relation "measure (\<lambda>n. n)") auto

declare string_of_nat.simps [simp del]

text \<open>\<open>a || s\<close> where \<open>s\<close> is a string that is always there.\<close>

definition or_string :: "string option \<Rightarrow> string \<Rightarrow> string" where
  "or_string a s = (case a of None \<Rightarrow> s | Some m \<Rightarrow> if m = [] then s else m)"

text \<open>\<open>errorData.error?.message || errorData.message || response.statusText\<close>\<close>

definition errorMessage_of :: "error_data \<Rightarrow> string \<Rightarrow> string" where
  "errorMessage_of errorData statusText =
     or_string (js_or (case error_field errorData of None \<Rightarrow> None | Some e \<Rightarrow> error_message e)
                      (message_field errorData))
               statusText"

text \<open>
  \<open>request\<close> returns what its promise settles to, and the calls of \<open>fetch\<close> it has made.
\<close>

definition request ::
  "(fetch_call \<Rightarrow> 'p fetch_outcome) \<Rightarrow> string \<Rightarrow> string \<Rightarrow> request_config option
     \<Rightarrow> (js_error + 'p) \<times> fetch_call list" where
  "request fetch apiToken path config =
     (let url = baseUrl @ ''/'' @ path;
          call = \<lparr> call_url = url, call_api_token = apiToken, call_config = config \<rparr>
      in (case fetch call of
            FetchRejected e \<Rightarrow> Inl e
          | NotOk status statusText parsed \<Rightarrow>
              (let errorData = (case parsed of None \<Rightarrow> ErrorData None None | Some d \<Rightarrow> d);
                   errorMessage = errorMessage_of errorData statusText
               in Inl (Error (''Lokalise API error: '' @ string_of_nat status @ '' - '' @ errorMessage)))
          | Ok parsed \<Rightarrow> parsed,
          [call]))"

subsection \<open>Project detail\<close>

text \<open>
  Values that the client passes on without looking inside are JSON values. An object is
  the list of its own properties, each name once.
\<close>

datatype json = JNull | JBool bool | JNum int | JStr string | JArr "json list"
  | JObj "(string \<times> json) list"





subsection \<open>Translations grouped by locale\<close>

text \<open>
  The fields of an upstream key that the client reads. \<open>key_name\<close> is a string or an
  object (its own properties in enumeration order); \<open>key_translations\<close> is the
  \<open>translations\<close> field, \<open>None\<close> when it is missing or not an array.
\<close>

datatype key_name = NameString string | NameObject "(string \<times> string) list"

record translation_entry =
  language_iso :: string
  translation :: string

record lokalise_key =
  key_name :: key_name
  key_translations :: "translation_entry list option"

datatype keys_response = KeysResponse (keys: "lokalise_key list option")

type_synonym translations_by_locale = "(string \<times> (string \<times> string) list) list"

text \<open>
  \<open>obj[k] = v\<close> on a plain object, as it shows in the object's own properties: the name
  \<open>__proto__\<close> reaches the prototype accessor and creates no property; any other name is
  set in place when the object has it and added after the others when it does not. (A
  name that is an array index is enumerated before the others; nothing below depends on
  the order of the properties of an object that holds such a name.)
\<close>

definition set_property :: "(string \<times> 'v) list \<Rightarrow> string \<Rightarrow> 'v \<Rightarrow> (string \<times> 'v) list" where
  "set_property obj k v = (if k = ''__proto__'' then obj else AList.update k v obj)"

text \<open>
  \<open>typeof key.key_name === 'object' ? Object.values(key.key_name)[0] : key.key_name\<close>;
  an object without properties gives \<open>undefined\<close>, which as a property name reads
  \<open>undefined\<close>.
\<close>

definition keyName_of :: "key_name \<Rightarrow> string" where
  "keyName_of n =
     (case n of
        NameString s \<Rightarrow> s
      | NameObject props \<Rightarrow> (case props of [] \<Rightarrow> ''undefined'' | (platform, v) # rest \<Rightarrow> v))"

text \<open>
  The body of the inner \<open>forEach\<close>. A locale of \<open>targetLocales\<close> has an own property in
  \<open>translationsByLocale\<close> unless it is \<open>__proto__\<close>, where the read yields the prototype
  object and the write changes no own property.
\<close>

definition store_translation ::
  "string list \<Rightarrow> string \<Rightarrow> translations_by_locale \<Rightarrow> translation_entry \<Rightarrow> translations_by_locale" where
  "store_translation targetLocales keyName translationsByLocale tr =
     (let locale = language_iso tr;
          translationText = translation tr
      in if locale \<in> set targetLocales \<and> translationText \<noteq> [] then
           (case map_of translationsByLocale locale of
              Some m \<Rightarrow> AList.update locale (set_property m keyName translationText) translationsByLocale
            | None \<Rightarrow> translationsByLocale)
         else translationsByLocale)"

text \<open>The body of the outer \<open>forEach\<close>.\<close>

definition process_key ::
  "string list \<Rightarrow> translations_by_locale \<Rightarrow> lokalise_key \<Rightarrow> translations_by_locale" where
  "process_key targetLocales translationsByLocale key =
     (let keyName = keyName_of (key_name key)
      in case key_translations key of
           None \<Rightarrow> translationsByLocale
         | Some trs \<Rightarrow> foldl (store_translation targetLocales keyName) translationsByLocale trs)"

definition initialize_locales :: "string list \<Rightarrow> translations_by_locale" where
  "initialize_locales targetLocales =
     foldl (\<lambda>translationsByLocale locale. set_property translationsByLocale locale []) [] targetLocales"

text \<open>The \<open>try\<close> block of \<open>getTranslationsFromKeys\<close>.\<close>

definition getTranslationsFromKeys_try ::
  "(fetch_call \<Rightarrow> keys_response fetch_outcome) \<Rightarrow> string \<Rightarrow> string \<Rightarrow> string list
     \<Rightarrow> (js_error + translations_by_locale) \<times> fetch_call list" where
  "getTranslationsFromKeys_try fetch apiToken projectId targetLocales =
     (let (settled, calls) =
            request fetch apiToken
              (''projects/'' @ projectId @ ''/keys?include_translations=1&limit=5000'') None
      in (case settled of
            Inl e \<Rightarrow> Inl e
          | Inr keysResponse \<Rightarrow>
              (case keys keysResponse of
                 None \<Rightarrow> Inr []
               | Some ks \<Rightarrow>
                   if length ks = 0 then Inr []
                   else Inr (foldl (process_key targetLocales) (initialize_locales targetLocales) ks)),
          calls))"

text \<open>The whole function: the \<open>catch\<close> block returns the empty object.\<close>

definition getTranslationsFromKeys ::
  "(fetch_call \<Rightarrow> keys_response fetch_outcome) \<Rightarrow> string \<Rightarrow> string \<Rightarrow> string list
     \<Rightarrow> (js_error + translations_by_locale) \<times> fetch_call list" where
  "getTranslationsFromKeys fetch apiToken projectId targetLocales =
     (let (settled, calls) = getTranslationsFromKeys_try fetch apiToken projectId targetLocales
      in (case settled of Inl e \<Rightarrow> Inr [] | Inr translationsByLocale \<Rightarrow> Inr translationsByLocale,
          calls))"

subsection \<open>The route POST /api/translations/:projectId/fetch (routes/translations.ts)\<close>

record fetch_success =
  reply_data :: translations_by_locale
  reply_counts :: "(string \<times> nat) list"
  reply_targetLocales :: "string list"

datatype fetch_reply = Failure error_response | Success fetch_success

text \<open>
  The handler behind the three middlewares. A missing \<open>req.projektId\<close> would read
  \<open>undefined\<close> in the path; a missing locale list or client would raise a TypeError
  inside the \<open>try\<close> (the texts are those of V8) before any upstream call; the
  \<open>catch\<close> replies 500 with the error's message.
\<close>

definition message_of_error :: "js_error \<Rightarrow> string" where
  "message_of_error e = (case e of Error m \<Rightarrow> m | TypeError m \<Rightarrow> m | SyntaxError m \<Rightarrow> m)"

definition internal_error_response :: "string \<Rightarrow> error_response" where
  "internal_error_response m =
     \<lparr> http_status = 500, success = None, message = m, details = None, expectedFormats = None \<rparr>"

definition fetch_handler ::
  "(fetch_call \<Rightarrow> keys_response fetch_outcome) \<Rightarrow> express_request \<Rightarrow> fetch_reply \<times> fetch_call list" where
  "fetch_handler fetch req =
     (let projectId = (case projektId req of None \<Rightarrow> ''undefined'' | Some p \<Rightarrow> p)
      in case body_targetLocales req of
           None \<Rightarrow>
             (Failure (internal_error_response ''Cannot read properties of undefined (reading 'join')''), [])
         | Some targetLocales \<Rightarrow>
             (case lokaliseClient req of
                None \<Rightarrow>
                  (Failure (internal_error_response
                     ''Cannot read properties of undefined (reading 'getTranslationsFromKeys')''), [])
              | Some apiToken \<Rightarrow>
                  (let (settled, calls) = getTranslationsFromKeys fetch apiToken projectId targetLocales
                   in (case settled of
                         Inl e \<Rightarrow> Failure (internal_error_response (message_of_error e))
                       | Inr result \<Rightarrow>
                           Success \<lparr> reply_data = result,
                                     reply_counts = map (\<lambda>(locale, trs). (locale, length trs)) result,
                                     reply_targetLocales = targetLocales \<rparr>,
                       calls))))"

definition translations_fetch_route ::
  "process_env \<Rightarrow> (fetch_call \<Rightarrow> keys_response fetch_outcome) \<Rightarrow> express_request
     \<Rightarrow> fetch_reply \<times> fetch_call list" where
  "translations_fetch_route env fetch req =
     (case validateLokaliseToken env req of
        Inl reply \<Rightarrow> (Failure reply, [])
      | Inr req1 \<Rightarrow>
          (case requireProjectId env req1 of
             Inl reply \<Rightarrow> (Failure reply, [])
           | Inr req2 \<Rightarrow>
               (case validateGetTranslations req2 of
                  Inl reply \<Rightarrow> (Failure reply, [])
                | Inr req3 \<Rightarrow> fetch_handler fetch req3)))"

subsection \<open>The upload payload (uploadFile)\<close>













section \<open>Observations and sample inputs\<close>

text \<open>The credential that a run of the token middleware has attached, if it went on.\<close>

definition resolved_credential :: "error_response + express_request \<Rightarrow> string option" where
  "resolved_credential r = (case r of Inl reply \<Rightarrow> None | Inr req \<Rightarrow> lokaliseClient req)"

text \<open>A request that carries nothing, and an environment that sets nothing.\<close>

definition no_request :: express_request where
  "no_request =
     \<lparr> header_authorization = None, header_x_api_token = None, header_lokalise_api_token = None,
       params_projectId = None, body_projectId = None, body_targetLocales = None,
       query_projectId = None, query_projektId = None, lokaliseClient = None, projektId = None \<rparr>"

definition no_env :: process_env where
  "no_env = \<lparr> LOKALISE_API_TOKEN = None, LOKALISE_PROJECT_ID = None \<rparr>"

text \<open>
  The call of \<open>fetch\<close> that \<open>request\<close> makes for a path, and the one for a path without
  a configuration (a GET).
\<close>

definition call_of :: "string \<Rightarrow> string \<Rightarrow> request_config option \<Rightarrow> fetch_call" where
  "call_of apiToken path config =
     \<lparr> call_url = baseUrl @ ''/'' @ path, call_api_token = apiToken, call_config = config \<rparr>"

definition get_call :: "string \<Rightarrow> string \<Rightarrow> fetch_call" where
  "get_call apiToken path = call_of apiToken path None"

text \<open>The one upstream call of the aggregation.\<close>

definition keys_call :: "string \<Rightarrow> string \<Rightarrow> fetch_call" where
  "keys_call apiToken projectId =
     get_call apiToken (''projects/'' @ projectId @ ''/keys?include_translations=1&limit=5000'')"



text \<open>Two keys of one name, each translated into French.\<close>

definition key_un :: lokalise_key where
  "key_un = \<lparr> key_name = NameObject [(''web'', ''title'')],
              key_translations = Some [\<lparr> language_iso = ''fr'', translation = ''Un'' \<rparr>] \<rparr>"


text \<open>Upstreams that answer every call alike.\<close>

definition upstream_no_keys :: "fetch_call \<Rightarrow> keys_response fetch_outcome" where
  "upstream_no_keys call = Ok (Inr (KeysResponse (Some [])))"

definition upstream_one_key :: "fetch_call \<Rightarrow> keys_response fetch_outcome" where
  "upstream_one_key call = Ok (Inr (KeysResponse (Some [key_un])))"


definition upstream_500 :: "fetch_call \<Rightarrow> keys_response fetch_outcome" where
  "upstream_500 call = NotOk 500 ''Internal Server Error'' None"

text \<open>The reply of \<open>validateGetTranslations\<close> to a missing or empty list of locales.\<close>

definition missing_locales_response :: error_response where
  "missing_locales_response =
     \<lparr> http_status = 400, success = None,
       message = ''Target locales array is required and must contain at least one locale'',
       details = None, expectedFormats = None \<rparr>"



text \<open>The set of the locales that a settled aggregation holds.\<close>

definition result_locales :: "js_error + translations_by_locale \<Rightarrow> js_error + string set" where
  "result_locales settled = map_sum id (\<lambda>r. fst ` set r) settled"

section \<open>Properties of the credential and scope resolution\<close>

lemma truthy_simps [simp]: "truthy None = False" "truthy (Some s) = (s \<noteq> [])"
  by (simp_all add: truthy_def)

lemma bearer_credential_None [simp]: "bearer_credential None = None"
  by (simp add: bearer_credential_def)

lemma bearer_credential_prefix: "bearer_credential (Some (''Bearer '' @ t)) = Some t"
  by (simp add: bearer_credential_def startsWith_def)

lemma bearer_credential_ignored:
  "\<not> startsWith h ''Bearer '' \<or> h = ''Bearer '' \<Longrightarrow> \<not> truthy (bearer_credential (Some h))"
  by (auto simp add: bearer_credential_def startsWith_def)

text \<open>
  In src/middleware/auth.ts the four sources are tried in the order bearer header,
  X-Api-Token, Lokalise-Api-Token, environment; the first that is truthy is the credential,
  and without any the reply is the 401 of the missing token.
\<close>

lemma validateLokaliseToken_bearer_first:
  "t \<noteq> [] \<Longrightarrow> header_authorization req = Some (''Bearer '' @ t) \<Longrightarrow>
   resolved_credential (validateLokaliseToken env req) = Some t"
  by (simp add: validateLokaliseToken_def resolved_credential_def js_or_def Let_def
      bearer_credential_def startsWith_def)

lemma validateLokaliseToken_x_api_token_second:
  "\<not> truthy (bearer_credential (header_authorization req)) \<Longrightarrow> truthy (header_x_api_token req) \<Longrightarrow>
   resolved_credential (validateLokaliseToken env req) = header_x_api_token req"
  by (simp add: validateLokaliseToken_def resolved_credential_def js_or_def Let_def)

lemma validateLokaliseToken_lokalise_api_token_third:
  "\<not> truthy (bearer_credential (header_authorization req)) \<Longrightarrow> \<not> truthy (header_x_api_token req) \<Longrightarrow>
   truthy (header_lokalise_api_token req) \<Longrightarrow>
   resolved_credential (validateLokaliseToken env req) = header_lokalise_api_token req"
  by (simp add: validateLokaliseToken_def resolved_credential_def js_or_def Let_def)

lemma validateLokaliseToken_env_last:
  "\<not> truthy (bearer_credential (header_authorization req)) \<Longrightarrow> \<not> truthy (header_x_api_token req) \<Longrightarrow>
   \<not> truthy (header_lokalise_api_token req) \<Longrightarrow> truthy (LOKALISE_API_TOKEN env) \<Longrightarrow>
   resolved_credential (validateLokaliseToken env req) = LOKALISE_API_TOKEN env"
  by (simp add: validateLokaliseToken_def resolved_credential_def js_or_def Let_def)

lemma validateLokaliseToken_missing:
  "\<not> truthy (bearer_credential (header_authorization req)) \<Longrightarrow> \<not> truthy (header_x_api_token req) \<Longrightarrow>
   \<not> truthy (header_lokalise_api_token req) \<Longrightarrow> \<not> truthy (LOKALISE_API_TOKEN env) \<Longrightarrow>
   validateLokaliseToken env req = Inl missing_token_response"
  by (simp add: validateLokaliseToken_def js_or_def Let_def)

text \<open>
  In both copies a request with exactly one truthy source resolves to that source.
\<close>

lemma single_source_resolves:
  assumes "[c \<leftarrow> [bearer_credential (header_authorization req), header_x_api_token req,
                   header_lokalise_api_token req, LOKALISE_API_TOKEN env]. truthy c] = [v]"
  shows "resolved_credential (validateLokaliseToken env req) = v"
    and "resolved_credential (validateLokaliseToken_part_004 env req) = v"
  using assms
  by (auto simp add: validateLokaliseToken_def validateLokaliseToken_part_004_def
      resolved_credential_def js_or_def Let_def split: if_splits)

text \<open>
  C2. The order bearer header, X-Api-Token, Lokalise-Api-Token, environment is the order of
  src/middleware/auth.ts, but not of the second copy of the middleware: for a request
  with the bearer header \<open>Bearer token-A\<close> and the header \<open>X-Api-Token: token-B\<close>, the
  copy in unnamed/part\_004 resolves \<open>token-B\<close>, where src/middleware/auth.ts resolves
  \<open>token-A\<close>.
\<close>

theorem part_004_header_beats_bearer:
  "resolved_credential
     (validateLokaliseToken_part_004 no_env
        (no_request\<lparr> header_authorization := Some ''Bearer token-A'',
                      header_x_api_token := Some ''token-B'' \<rparr>)) = Some ''token-B''
   \<and> resolved_credential
     (validateLokaliseToken no_env
        (no_request\<lparr> header_authorization := Some ''Bearer token-A'',
                      header_x_api_token := Some ''token-B'' \<rparr>)) = Some ''token-A''"
  by (simp add: validateLokaliseToken_part_004_def validateLokaliseToken_def resolved_credential_def
      js_or_def Let_def no_request_def no_env_def bearer_credential_def startsWith_def)

lemma validateLokaliseToken_without_bearer:
  assumes "header_authorization req = Some h"
      and "\<not> startsWith h ''Bearer '' \<or> h = ''Bearer ''"
  shows "validateLokaliseToken env req =
           map_sum id (\<lambda>r. r\<lparr> header_authorization := Some h \<rparr>)
             (validateLokaliseToken env (req\<lparr> header_authorization := None \<rparr>))"
    and "validateLokaliseToken_part_004 env req =
           map_sum id (\<lambda>r. r\<lparr> header_authorization := Some h \<rparr>)
             (validateLokaliseToken_part_004 env (req\<lparr> header_authorization := None \<rparr>))"
proof -
  have b: "\<not> truthy (bearer_credential (Some h))"
    using assms(2) by (rule bearer_credential_ignored)
  obtain a x l p b tl q qk c pr where fields:
    "req = \<lparr> header_authorization = a, header_x_api_token = x, header_lokalise_api_token = l,
        params_projectId = p, body_projectId = b, body_targetLocales = tl,
        query_projectId = q, query_projektId = qk, lokaliseClient = c, projektId = pr \<rparr>"
    by (cases req)
  have a: "a = Some h"
    using assms(1) fields by simp
  show "validateLokaliseToken env req =
           map_sum id (\<lambda>r. r\<lparr> header_authorization := Some h \<rparr>)
             (validateLokaliseToken env (req\<lparr> header_authorization := None \<rparr>))"
    using b by (simp add: validateLokaliseToken_def Let_def js_or_def fields a)
  show "validateLokaliseToken_part_004 env req =
           map_sum id (\<lambda>r. r\<lparr> header_authorization := Some h \<rparr>)
             (validateLokaliseToken_part_004 env (req\<lparr> header_authorization := None \<rparr>))"
    using b by (simp add: validateLokaliseToken_part_004_def Let_def js_or_def fields a)
qed

lemma validateLokaliseToken_fallthrough:
  assumes "\<not> truthy (bearer_credential (header_authorization req))"
  shows "(if truthy (header_x_api_token req) \<or> truthy (header_lokalise_api_token req)
              \<or> truthy (LOKALISE_API_TOKEN env)
           then resolved_credential (validateLokaliseToken env req) =
                  js_or (js_or (header_x_api_token req) (header_lokalise_api_token req))
                        (LOKALISE_API_TOKEN env)
              \<and> resolved_credential (validateLokaliseToken_part_004 env req) =
                  js_or (js_or (header_x_api_token req) (header_lokalise_api_token req))
                        (LOKALISE_API_TOKEN env)
           else validateLokaliseToken env req = Inl missing_token_response
              \<and> validateLokaliseToken_part_004 env req = Inl missing_token_response)"
  using assms
  by (simp add: validateLokaliseToken_def validateLokaliseToken_part_004_def
      resolved_credential_def js_or_def Let_def)

text \<open>
  C10. An Authorization header that does not begin with \<open>Bearer \<close> (a bare token, say), or
  that is \<open>Bearer \<close> with nothing after it, is ignored by both copies of the middleware: the
  outcome is that of the same request without the header (with the header put back in
  the request that goes on). The credential is then the first truthy one of X-Api-Token,
  Lokalise-Api-Token and the environment value, and without any of them the reply is the
  401 of the missing token.
\<close>

theorem non_bearer_authorization_ignored:
  assumes "header_authorization req = Some h"
      and "\<not> startsWith h ''Bearer '' \<or> h = ''Bearer ''"
  shows "validateLokaliseToken env req =
           map_sum id (\<lambda>r. r\<lparr> header_authorization := Some h \<rparr>)
             (validateLokaliseToken env (req\<lparr> header_authorization := None \<rparr>))
       \<and> validateLokaliseToken_part_004 env req =
           map_sum id (\<lambda>r. r\<lparr> header_authorization := Some h \<rparr>)
             (validateLokaliseToken_part_004 env (req\<lparr> header_authorization := None \<rparr>))
       \<and> (if truthy (header_x_api_token req) \<or> truthy (header_lokalise_api_token req)
              \<or> truthy (LOKALISE_API_TOKEN env)
           then resolved_credential (validateLokaliseToken env req) =
                  js_or (js_or (header_x_api_token req) (header_lokalise_api_token req))
                        (LOKALISE_API_TOKEN env)
              \<and> resolved_credential (validateLokaliseToken_part_004 env req) =
                  js_or (js_or (header_x_api_token req) (header_lokalise_api_token req))
                        (LOKALISE_API_TOKEN env)
           else validateLokaliseToken env req = Inl missing_token_response
              \<and> validateLokaliseToken_part_004 env req = Inl missing_token_response)
       \<and> http_status missing_token_response = 401"
proof -
  have b: "\<not> truthy (bearer_credential (header_authorization req))"
    using assms by (simp add: bearer_credential_ignored)
  show ?thesis
    using validateLokaliseToken_without_bearer [OF assms, of env]
      validateLokaliseToken_fallthrough [OF b, of env]
    by (simp add: missing_token_response_def)
qed

theorem non_bearer_authorization_ignored_witness:
  "validateLokaliseToken no_env (no_request\<lparr> header_authorization := Some ''token-A'' \<rparr>)
     = Inl missing_token_response
   \<and> resolved_credential
       (validateLokaliseToken no_env
          (no_request\<lparr> header_authorization := Some ''token-A'',
                        header_lokalise_api_token := Some ''token-C'' \<rparr>)) = Some ''token-C''
   \<and> validateLokaliseToken_part_004 \<lparr> LOKALISE_API_TOKEN = None, LOKALISE_PROJECT_ID = None \<rparr>
       (no_request\<lparr> header_authorization := Some ''Bearer '' \<rparr>) = Inl missing_token_response"
proof -
  have s1: "\<not> startsWith ''token-A'' ''Bearer '' \<or> ''token-A'' = ''Bearer ''"
    by (simp add: startsWith_def)
  have s2: "\<not> startsWith ''Bearer '' ''Bearer '' \<or> ''Bearer '' = ''Bearer ''"
    by simp
  have h1: "header_authorization (no_request\<lparr> header_authorization := Some ''token-A'' \<rparr>)
              = Some ''token-A''"
    by simp
  have h2: "header_authorization (no_request\<lparr> header_authorization := Some ''token-A'',
              header_lokalise_api_token := Some ''token-C'' \<rparr>) = Some ''token-A''"
    by simp
  have h3: "header_authorization (no_request\<lparr> header_authorization := Some ''Bearer '' \<rparr>)
              = Some ''Bearer ''"
    by simp
  note third = conjunct2 [THEN conjunct2, THEN conjunct1]
  have r1: "validateLokaliseToken no_env (no_request\<lparr> header_authorization := Some ''token-A'' \<rparr>)
              = Inl missing_token_response"
    using non_bearer_authorization_ignored [OF h1 s1, of no_env, THEN third]
    by (simp add: no_request_def no_env_def)
  have r2: "resolved_credential
       (validateLokaliseToken no_env
          (no_request\<lparr> header_authorization := Some ''token-A'',
                        header_lokalise_api_token := Some ''token-C'' \<rparr>)) = Some ''token-C''"
    using non_bearer_authorization_ignored [OF h2 s1, of no_env, THEN third]
    by (simp add: no_request_def no_env_def js_or_def)
  have r3: "validateLokaliseToken_part_004 \<lparr> LOKALISE_API_TOKEN = None, LOKALISE_PROJECT_ID = None \<rparr>
       (no_request\<lparr> header_authorization := Some ''Bearer '' \<rparr>) = Inl missing_token_response"
    using non_bearer_authorization_ignored
      [OF h3 s2, of "\<lparr> LOKALISE_API_TOKEN = None, LOKALISE_PROJECT_ID = None \<rparr>", THEN third]
    by (simp add: no_request_def)
  show ?thesis
    using r1 r2 r3 by (intro conjI)
qed

text \<open>
  C6. \<open>requireProjectId\<close> takes the project id from the first truthy one of: the path
  parameter, the body field, the query field \<open>projektId\<close>, the value an earlier middleware
  has stored in the request, the environment value. Without any, it replies 400 with a
  message that the project id is required and the list of the accepted places: URL, body,
  query.
\<close>

theorem requireProjectId_precedence:
  "(truthy (params_projectId req) \<longrightarrow>
      requireProjectId env req = Inr (req\<lparr> projektId := params_projectId req \<rparr>))
   \<and> (\<not> truthy (params_projectId req) \<and> truthy (body_projectId req) \<longrightarrow>
      requireProjectId env req = Inr (req\<lparr> projektId := body_projectId req \<rparr>))
   \<and> (\<not> truthy (params_projectId req) \<and> \<not> truthy (body_projectId req)
        \<and> truthy (query_projektId req) \<longrightarrow>
      requireProjectId env req = Inr (req\<lparr> projektId := query_projektId req \<rparr>))
   \<and> (\<not> truthy (params_projectId req) \<and> \<not> truthy (body_projectId req)
        \<and> \<not> truthy (query_projektId req) \<and> truthy (projektId req) \<longrightarrow>
      requireProjectId env req = Inr (req\<lparr> projektId := projektId req \<rparr>))
   \<and> (\<not> truthy (params_projectId req) \<and> \<not> truthy (body_projectId req)
        \<and> \<not> truthy (query_projektId req) \<and> \<not> truthy (projektId req)
        \<and> truthy (LOKALISE_PROJECT_ID env) \<longrightarrow>
      requireProjectId env req = Inr (req\<lparr> projektId := LOKALISE_PROJECT_ID env \<rparr>))
   \<and> (\<not> truthy (params_projectId req) \<and> \<not> truthy (body_projectId req)
        \<and> \<not> truthy (query_projektId req) \<and> \<not> truthy (projektId req)
        \<and> \<not> truthy (LOKALISE_PROJECT_ID env) \<longrightarrow>
      requireProjectId env req = Inl missing_project_response)
   \<and> http_status missing_project_response = 400
   \<and> message missing_project_response =
        ''Project ID is required. Provide via URL parameter, request body, or query parameter.''
   \<and> expectedFormats missing_project_response =
        Some [''URL: /api/projects/{projectId}'',
              ''Body: { \"projectId\": \"your-project-id\" }'',
              ''Query: ?projektId=your-project-id'']"
  by (simp add: requireProjectId_def js_or_def Let_def missing_project_response_def)

theorem requireProjectId_precedence_witness:
  "requireProjectId \<lparr> LOKALISE_API_TOKEN = None, LOKALISE_PROJECT_ID = Some ''p-env'' \<rparr>
     (no_request\<lparr> body_projectId := Some ''p-body'', query_projektId := Some ''p-query'' \<rparr>)
     = Inr (no_request\<lparr> body_projectId := Some ''p-body'', query_projektId := Some ''p-query'',
                         projektId := Some ''p-body'' \<rparr>)
   \<and> requireProjectId \<lparr> LOKALISE_API_TOKEN = None, LOKALISE_PROJECT_ID = Some ''p-env'' \<rparr>
       (no_request\<lparr> params_projectId := Some '''' \<rparr>)
     = Inr (no_request\<lparr> params_projectId := Some '''', projektId := Some ''p-env'' \<rparr>)
   \<and> requireProjectId no_env no_request = Inl missing_project_response"
  using requireProjectId_precedence
      [of "no_request\<lparr> body_projectId := Some ''p-body'', query_projektId := Some ''p-query'' \<rparr>"
          "\<lparr> LOKALISE_API_TOKEN = None, LOKALISE_PROJECT_ID = Some ''p-env'' \<rparr>"]
    requireProjectId_precedence
      [of "no_request\<lparr> params_projectId := Some '''' \<rparr>"
          "\<lparr> LOKALISE_API_TOKEN = None, LOKALISE_PROJECT_ID = Some ''p-env'' \<rparr>"]
    requireProjectId_precedence [of no_request no_env]
  by (simp add: no_request_def no_env_def)

section \<open>Properties of the upstream client\<close>



lemma request_FetchRejected:
  "fetch (call_of apiToken path config) = FetchRejected e \<Longrightarrow>
   request fetch apiToken path config = (Inl e, [call_of apiToken path config])"
  by (simp add: request_def call_of_def Let_def)







subsection \<open>Project detail\<close>






subsection \<open>Translations grouped by locale\<close>

lemma set_property_keys:
  "fst ` set (set_property obj k v) = fst ` set obj \<union> ({k} - {''__proto__''})"
  by (auto simp add: set_property_def dom_update)

lemma set_property_distinct:
  "distinct (map fst obj) \<Longrightarrow> distinct (map fst (set_property obj k v))"
  by (simp add: set_property_def distinct_update)


lemma initialize_locales_fold:
  "fst ` set (foldl (\<lambda>tbl locale. set_property tbl locale []) acc ls)
     = fst ` set acc \<union> (set ls - {''__proto__''})"
  by (induction ls arbitrary: acc) (auto simp add: set_property_keys)

lemma initialize_locales_fold_distinct:
  "distinct (map fst acc) \<Longrightarrow>
   distinct (map fst (foldl (\<lambda>tbl locale. set_property tbl locale ([] :: (string \<times> string) list)) acc ls))"
  by (induction ls arbitrary: acc) (simp_all add: set_property_distinct)


lemma initialize_locales_keys:
  "fst ` set (initialize_locales targetLocales) = set targetLocales - {''__proto__''}"
  by (simp add: initialize_locales_def initialize_locales_fold)

lemma initialize_locales_distinct: "distinct (map fst (initialize_locales targetLocales))"
  by (simp add: initialize_locales_def initialize_locales_fold_distinct)


lemma store_translation_keys:
  "map fst (store_translation targetLocales keyName tbl tr) = map fst tbl"
proof (cases "map_of tbl (language_iso tr)")
  case None
  then show ?thesis
    by (simp add: store_translation_def Let_def)
next
  case (Some m)
  then have "language_iso tr \<in> set (map fst tbl)"
    by (metis map_of_eq_None_iff option.distinct(1) set_map)
  then show ?thesis
    using Some by (simp add: store_translation_def Let_def update_keys)
qed


lemma foldl_store_translation_keys:
  "map fst (foldl (store_translation targetLocales keyName) tbl trs) = map fst tbl"
  by (induction trs arbitrary: tbl) (simp_all add: store_translation_keys)


lemma process_key_keys: "map fst (process_key targetLocales tbl key) = map fst tbl"
  by (simp add: process_key_def Let_def foldl_store_translation_keys split: option.splits)


lemma process_keys_keys: "map fst (foldl (process_key targetLocales) tbl ks) = map fst tbl"
  by (induction ks arbitrary: tbl) (simp_all add: process_key_keys)




lemma aggregate_unfold:
  "getTranslationsFromKeys fetch apiToken projectId targetLocales =
     (case fetch (keys_call apiToken projectId) of
        FetchRejected e \<Rightarrow> Inr []
      | NotOk status statusText body \<Rightarrow> Inr []
      | Ok parsed \<Rightarrow>
          (case parsed of
             Inl e \<Rightarrow> Inr []
           | Inr keysResponse \<Rightarrow>
               (case keys keysResponse of
                  None \<Rightarrow> Inr []
                | Some ks \<Rightarrow>
                    if ks = [] then Inr []
                    else Inr (foldl (process_key targetLocales) (initialize_locales targetLocales) ks))),
      [keys_call apiToken projectId])"
  by (simp add: getTranslationsFromKeys_def getTranslationsFromKeys_try_def request_def
      keys_call_def get_call_def call_of_def Let_def
      split: fetch_outcome.splits sum.splits option.splits)

lemma aggregate_keys:
  assumes "fetch (keys_call apiToken projectId) = Ok (Inr (KeysResponse (Some (k # ks))))"
  shows "getTranslationsFromKeys fetch apiToken projectId targetLocales =
           (Inr (foldl (process_key targetLocales) (initialize_locales targetLocales) (k # ks)),
            [keys_call apiToken projectId])"
  unfolding aggregate_unfold assms by simp

lemma aggregate_no_keys:
  assumes "fetch (keys_call apiToken projectId) = Ok (Inr (KeysResponse (Some [])))
         \<or> fetch (keys_call apiToken projectId) = Ok (Inr (KeysResponse None))"
  shows "getTranslationsFromKeys fetch apiToken projectId targetLocales =
           (Inr [], [keys_call apiToken projectId])"
  using assms unfolding aggregate_unfold by auto

lemma aggregate_failed:
  assumes "fetch (keys_call apiToken projectId) = FetchRejected e
         \<or> fetch (keys_call apiToken projectId) = NotOk status statusText body
         \<or> fetch (keys_call apiToken projectId) = Ok (Inl e)"
  shows "getTranslationsFromKeys fetch apiToken projectId targetLocales =
           (Inr [], [keys_call apiToken projectId])"
  using assms unfolding aggregate_unfold by auto

text \<open>
  C1. \<open>getTranslationsFromKeys\<close> makes one upstream call and never fails. Its result
  has each locale at most once and no locale that was not requested. When the upstream
  returns at least one key, the locales of the result are exactly the requested ones
  (other than the name \<open>__proto__\<close>, which an object cannot hold as a property set by
  assignment), each with its mapping. When the upstream returns no keys, the result is the
  empty object: it has no locale at all.
\<close>

theorem aggregate_locales:
  "\<exists>r. getTranslationsFromKeys fetch apiToken projectId targetLocales
          = (Inr r, [keys_call apiToken projectId])
      \<and> distinct (map fst r)
      \<and> fst ` set r \<subseteq> set targetLocales
      \<and> (\<forall>k ks. fetch (keys_call apiToken projectId) = Ok (Inr (KeysResponse (Some (k # ks)))) \<longrightarrow>
            fst ` set r = set targetLocales - {''__proto__''})
      \<and> (fetch (keys_call apiToken projectId) = Ok (Inr (KeysResponse (Some [])))
          \<or> fetch (keys_call apiToken projectId) = Ok (Inr (KeysResponse None)) \<longrightarrow> r = [])"
proof (cases "\<exists>k ks. fetch (keys_call apiToken projectId) = Ok (Inr (KeysResponse (Some (k # ks))))")
  case True
  then obtain k ks where
    f: "fetch (keys_call apiToken projectId) = Ok (Inr (KeysResponse (Some (k # ks))))"
    by blast
  let ?r = "foldl (process_key targetLocales) (initialize_locales targetLocales) (k # ks)"
  have keys: "map fst ?r = map fst (initialize_locales targetLocales)"
    by (rule process_keys_keys)
  have "fst ` set ?r = set (map fst ?r)"
    by simp
  then have dom: "fst ` set ?r = set targetLocales - {''__proto__''}"
    unfolding keys using initialize_locales_keys [of targetLocales] by simp
  have dist: "distinct (map fst ?r)"
    unfolding keys by (rule initialize_locales_distinct)
  have "getTranslationsFromKeys fetch apiToken projectId targetLocales
          = (Inr ?r, [keys_call apiToken projectId])"
    using f by (rule aggregate_keys)
  then show ?thesis
    using dom dist f by (intro exI [of _ ?r]) auto
next
  case False
  have "getTranslationsFromKeys fetch apiToken projectId targetLocales
          = (Inr [], [keys_call apiToken projectId])"
  proof (cases "fetch (keys_call apiToken projectId)")
    case (FetchRejected e)
    then show ?thesis by (simp add: aggregate_failed)
  next
    case (NotOk status statusText body)
    then show ?thesis by (simp add: aggregate_failed)
  next
    case (Ok parsed)
    show ?thesis
    proof (cases parsed)
      case (Inl e)
      then show ?thesis using Ok by (simp add: aggregate_failed)
    next
      case (Inr keysResponse)
      obtain ko where ko: "keysResponse = KeysResponse ko"
        by (cases keysResponse)
      show ?thesis
      proof (cases ko)
        case None
        then show ?thesis using Ok Inr ko by (simp add: aggregate_no_keys)
      next
        case (Some ks)
        then have "ks = []"
          using False Ok Inr ko by (cases ks) auto
        then show ?thesis using Ok Inr ko Some by (simp add: aggregate_no_keys)
      qed
    qed
  qed
  then show ?thesis
    using False by (intro exI [of _ "[]"]) auto
qed

theorem aggregate_locales_witness:
  "result_locales (fst (getTranslationsFromKeys upstream_one_key ''token'' ''p1'' [''fr'', ''de'']))
     = Inr {''fr'', ''de''}
   \<and> getTranslationsFromKeys upstream_one_key ''token'' ''p1'' [''fr'', ''de'']
     = (Inr [(''fr'', [(''title'', ''Un'')]), (''de'', [])], [keys_call ''token'' ''p1''])"
proof -
  obtain r where r: "getTranslationsFromKeys upstream_one_key ''token'' ''p1'' [''fr'', ''de'']
                       = (Inr r, [keys_call ''token'' ''p1''])"
    and dom: "\<forall>k ks. upstream_one_key (keys_call ''token'' ''p1'') = Ok (Inr (KeysResponse (Some (k # ks))))
                \<longrightarrow> fst ` set r = set [''fr'', ''de''] - {''__proto__''}"
    using aggregate_locales [of upstream_one_key "''token''" "''p1''" "[''fr'', ''de'']"] by blast
  have "fst ` set r = set [''fr'', ''de''] - {''__proto__''}"
    using dom by (simp add: upstream_one_key_def)
  then have 1: "result_locales
      (fst (getTranslationsFromKeys upstream_one_key ''token'' ''p1'' [''fr'', ''de''])) = Inr {''fr'', ''de''}"
    using r by (auto simp add: result_locales_def)
  have 2: "getTranslationsFromKeys upstream_one_key ''token'' ''p1'' [''fr'', ''de'']
     = (Inr [(''fr'', [(''title'', ''Un'')]), (''de'', [])], [keys_call ''token'' ''p1''])"
    by (simp add: aggregate_unfold upstream_one_key_def key_un_def initialize_locales_def
        set_property_def process_key_def store_translation_def keyName_of_def)
  show ?thesis
    using 1 2 by (intro conjI)
qed

text \<open>
  The claim of C1 for an upstream without keys fails: for the requested locales
  \<open>fr\<close> and \<open>de\<close> the result has no locale.
\<close>

theorem aggregate_zero_keys_counterexample:
  "fst (getTranslationsFromKeys upstream_no_keys ''token'' ''p1'' [''fr'', ''de'']) = Inr []
   \<and> result_locales (fst (getTranslationsFromKeys upstream_no_keys ''token'' ''p1'' [''fr'', ''de'']))
      \<noteq> Inr {''fr'', ''de''}"
  by (simp add: aggregate_unfold upstream_no_keys_def result_locales_def)

text \<open>
  C4. When the upstream call fails (\<open>fetch\<close> rejects, the status is not a success, or
  the body of a success does not parse), \<open>getTranslationsFromKeys\<close> does not fail: after
  that one call it returns the empty object, which has no locale.
\<close>

theorem aggregate_upstream_failure:
  assumes "fetch (keys_call apiToken projectId) = FetchRejected e
         \<or> fetch (keys_call apiToken projectId) = NotOk status statusText body
         \<or> fetch (keys_call apiToken projectId) = Ok (Inl e)"
  shows "getTranslationsFromKeys fetch apiToken projectId targetLocales =
           (Inr [], [keys_call apiToken projectId])"
  using assms by (rule aggregate_failed)

theorem aggregate_upstream_failure_witness:
  "getTranslationsFromKeys upstream_500 ''token'' ''p1'' [''fr'', ''de'']
     = (Inr [], [keys_call ''token'' ''p1''])"
proof -
  have "upstream_500 (keys_call ''token'' ''p1'') = FetchRejected (Error [])
      \<or> upstream_500 (keys_call ''token'' ''p1'') = NotOk 500 ''Internal Server Error'' None
      \<or> upstream_500 (keys_call ''token'' ''p1'') = Ok (Inl (Error []))"
    by (simp add: upstream_500_def)
  then show ?thesis
    by (rule aggregate_upstream_failure)
qed

text \<open>
  The claim of C4 fails at its own example: with the locales \<open>fr\<close> and \<open>de\<close> and an
  upstream that answers 500, the result is not an empty mapping for each locale.
\<close>

theorem aggregate_upstream_500_counterexample:
  "fst (getTranslationsFromKeys upstream_500 ''token'' ''p1'' [''fr'', ''de'']) = Inr []
   \<and> fst (getTranslationsFromKeys upstream_500 ''token'' ''p1'' [''fr'', ''de''])
      \<noteq> Inr [(''fr'', []), (''de'', [])]
   \<and> result_locales (fst (getTranslationsFromKeys upstream_500 ''token'' ''p1'' [''fr'', ''de'']))
      \<noteq> Inr {''fr'', ''de''}"
  by (simp add: aggregate_unfold upstream_500_def result_locales_def)








subsection \<open>The route POST /api/translations/:projectId/fetch\<close>

lemma validateLokaliseToken_next:
  assumes "validateLokaliseToken env req = Inr req1"
  shows "params_projectId req1 = params_projectId req"
    and "body_projectId req1 = body_projectId req"
    and "query_projectId req1 = query_projectId req"
    and "body_targetLocales req1 = body_targetLocales req"
    and "truthy (lokaliseClient req1)"
  using assms
  by (auto simp add: validateLokaliseToken_def Let_def split: if_splits)

lemma requireProjectId_next:
  assumes "requireProjectId env req = Inr req2"
  shows "params_projectId req2 = params_projectId req"
    and "body_projectId req2 = body_projectId req"
    and "query_projectId req2 = query_projectId req"
    and "body_targetLocales req2 = body_targetLocales req"
    and "lokaliseClient req2 = lokaliseClient req"
    and "truthy (projektId req2)"
  using assms
  by (auto simp add: requireProjectId_def Let_def split: if_splits)

lemma middleware_reply_status:
  "validateLokaliseToken env req = Inl reply \<Longrightarrow> http_status reply = 401"
  "requireProjectId env req = Inl reply \<Longrightarrow> http_status reply = 400"
  "validateGetTranslations req = Inl reply \<Longrightarrow> http_status reply = 400"
  by (auto simp add: validateLokaliseToken_def requireProjectId_def validateGetTranslations_def
      missing_token_response_def missing_project_response_def Let_def split: if_splits)

lemma validateGetTranslations_empty:
  assumes "body_targetLocales req = None \<or> body_targetLocales req = Some []"
  shows "\<exists>reply. validateGetTranslations req = Inl reply"
    and "truthy (params_projectId req) \<Longrightarrow> validateGetTranslations req = Inl missing_locales_response"
  using assms
  by (auto simp add: validateGetTranslations_def missing_locales_response_def js_or_def Let_def)

lemma route_stopped:
  assumes "body_targetLocales req = None \<or> body_targetLocales req = Some []"
  shows "\<exists>reply. translations_fetch_route env fetch req = (Failure reply, [])
           \<and> (http_status reply = 400 \<or> http_status reply = 401)
           \<and> (truthy (params_projectId req) \<and> \<not> isl (validateLokaliseToken env req) \<longrightarrow>
                reply = missing_locales_response)"
proof (cases "validateLokaliseToken env req")
  case (Inl reply)
  then show ?thesis
    using middleware_reply_status(1) [OF Inl] by (simp add: translations_fetch_route_def)
next
  case (Inr req1)
  note r1 = validateLokaliseToken_next [OF Inr]
  show ?thesis
  proof (cases "requireProjectId env req1")
    case (Inl reply)
    have "\<not> truthy (params_projectId req)"
      using Inl r1(1) by (auto simp add: requireProjectId_def js_or_def Let_def split: if_splits)
    then show ?thesis
      using middleware_reply_status(2) [OF Inl] Inr Inl by (simp add: translations_fetch_route_def)
  next
    case req2: (Inr req2)
    note r2 = requireProjectId_next [OF req2]
    have empty: "body_targetLocales req2 = None \<or> body_targetLocales req2 = Some []"
      using assms r1(4) r2(4) by simp
    obtain reply where reply: "validateGetTranslations req2 = Inl reply"
      using validateGetTranslations_empty(1) [OF empty] by blast
    have "truthy (params_projectId req) \<longrightarrow> reply = missing_locales_response"
      using validateGetTranslations_empty(2) [OF empty] reply r1(1) r2(1) by simp
    then show ?thesis
      using middleware_reply_status(3) [OF reply] Inr req2 reply
      by (simp add: translations_fetch_route_def)
  qed
qed

text \<open>
  C7. The empty list of locales is refused by the route, not by the aggregation: with a
  missing or empty \<open>targetLocales\<close> the route POST /:projectId/fetch replies with a failure
  (400, or 401 when no credential resolves) and makes no upstream call; with a
  credential and a path parameter the reply is the 400 of \<open>validateGetTranslations\<close> that
  says the list must contain at least one locale.
\<close>

theorem empty_locales_stopped_by_route:
  assumes "body_targetLocales req = None \<or> body_targetLocales req = Some []"
  shows "snd (translations_fetch_route env fetch req) = []
       \<and> (\<exists>reply. fst (translations_fetch_route env fetch req) = Failure reply
             \<and> (http_status reply = 400 \<or> http_status reply = 401))
       \<and> (truthy (params_projectId req) \<and> \<not> isl (validateLokaliseToken env req) \<longrightarrow>
             fst (translations_fetch_route env fetch req) = Failure missing_locales_response)
       \<and> http_status missing_locales_response = 400"
proof -
  obtain reply where r: "translations_fetch_route env fetch req = (Failure reply, [])"
    and s: "http_status reply = 400 \<or> http_status reply = 401"
    and m: "truthy (params_projectId req) \<and> \<not> isl (validateLokaliseToken env req) \<longrightarrow>
              reply = missing_locales_response"
    using route_stopped [OF assms, of env fetch] by blast
  have 1: "snd (translations_fetch_route env fetch req) = []"
    using r by simp
  have 2: "\<exists>reply. fst (translations_fetch_route env fetch req) = Failure reply
             \<and> (http_status reply = 400 \<or> http_status reply = 401)"
    using r s by simp
  have 3: "truthy (params_projectId req) \<and> \<not> isl (validateLokaliseToken env req) \<longrightarrow>
             fst (translations_fetch_route env fetch req) = Failure missing_locales_response"
    using r m by simp
  have 4: "http_status missing_locales_response = 400"
    by (simp add: missing_locales_response_def)
  show ?thesis
    using 1 2 3 4 by (intro conjI)
qed

theorem empty_locales_stopped_by_route_witness:
  "translations_fetch_route no_env upstream_one_key
     (no_request\<lparr> header_authorization := Some ''Bearer token'', params_projectId := Some ''p1'',
                   body_targetLocales := Some [] \<rparr>)
     = (Failure missing_locales_response, [])"
proof -
  let ?req = "no_request\<lparr> header_authorization := Some ''Bearer token'',
                params_projectId := Some ''p1'', body_targetLocales := Some [] \<rparr>"
  have e: "body_targetLocales ?req = None \<or> body_targetLocales ?req = Some []"
    by simp
  have c: "truthy (params_projectId ?req) \<and> \<not> isl (validateLokaliseToken no_env ?req)"
    by (simp add: validateLokaliseToken_def Let_def js_or_def bearer_credential_def startsWith_def
        no_request_def no_env_def)
  note t = empty_locales_stopped_by_route [OF e, of no_env upstream_one_key]
  have "snd (translations_fetch_route no_env upstream_one_key ?req) = []"
    using t by (rule conjunct1)
  moreover have "fst (translations_fetch_route no_env upstream_one_key ?req)
                   = Failure missing_locales_response"
    using t c by blast
  ultimately show ?thesis
    by (simp add: prod_eq_iff)
qed

text \<open>
  With a locale in the list the same request reaches the handler, which makes the
  upstream call and replies with the translations and their counts.
\<close>

lemma route_reaches_handler:
  "translations_fetch_route no_env upstream_one_key
     (no_request\<lparr> header_authorization := Some ''Bearer token'', params_projectId := Some ''p1'',
                   body_targetLocales := Some [''fr'', ''de''] \<rparr>)
     = (Success \<lparr> reply_data = [(''fr'', [(''title'', ''Un'')]), (''de'', [])],
                  reply_counts = [(''fr'', 1), (''de'', 0)],
                  reply_targetLocales = [''fr'', ''de''] \<rparr>,
        [keys_call ''token'' ''p1''])"
  by (simp add: translations_fetch_route_def validateLokaliseToken_def requireProjectId_def
      validateGetTranslations_def fetch_handler_def Let_def js_or_def bearer_credential_def
      startsWith_def no_request_def no_env_def aggregate_unfold upstream_one_key_def key_un_def
      initialize_locales_def set_property_def process_key_def store_translation_def keyName_of_def)

text \<open>
  The claim of C7 fails for the aggregation itself: called with no locale, it makes the
  upstream call and returns the empty object, without an error.
\<close>

theorem aggregate_empty_locales_counterexample:
  "getTranslationsFromKeys upstream_one_key ''token'' ''p1'' []
     = (Inr [], [keys_call ''token'' ''p1''])"
  by (simp add: aggregate_unfold upstream_one_key_def key_un_def initialize_locales_def
      process_key_def store_translation_def keyName_of_def)

subsection \<open>The upload payload\<close>
























end
